theory Spec2Isabelle
  imports Main "HOL-Library.AList"
begin

section \<open>Python values and exceptions\<close>

text \<open>
  The values the integration handles: the literals that \<^verbatim>\<open>ast.literal_eval\<close> can
  produce, which are also what the message lists and the request mapping hold. A
  dictionary is an association list in insertion order.
\<close>

datatype pyval =
    PNone
  | PBool bool
  | PInt int
  | PStr string
  | PList "pyval list"
  | PTuple "pyval list"
  | PDict "(pyval \<times> pyval) list"

text \<open>
  Exceptions carry their class and the text \<^verbatim>\<open>str(err)\<close> gives. Only instances of
  \<^verbatim>\<open>Exception\<close> are modelled. The classes are the ones the code raises or tests for:
  \<^item> \<open>RequestsHTTPError\<close>: \<^verbatim>\<open>requests.exceptions.HTTPError\<close>;
  \<^item> \<open>RequestsConnectionError\<close>: the transport exceptions of \<^verbatim>\<open>requests\<close>
    (\<^verbatim>\<open>ConnectionError\<close>, \<^verbatim>\<open>SSLError\<close>, \<^verbatim>\<open>Timeout\<close>), siblings of \<^verbatim>\<open>HTTPError\<close>
    under \<^verbatim>\<open>RequestException\<close>;
  \<^item> \<open>URLError\<close>: \<^verbatim>\<open>urllib.error.URLError\<close> and its subclasses;
  \<^item> \<open>OtherException name\<close>: any other class, derived from none of the above.
\<close>

datatype exn_class =
    RequestsHTTPError
  | RequestsConnectionError
  | URLError
  | TypeError
  | KeyError
  | SyntaxError
  | ValueError
  | ConfigEntryNotReady
  | OtherException string

datatype exn = Exn exn_class string

fun isinstance :: "exn \<Rightarrow> exn_class \<Rightarrow> bool" where
  "isinstance (Exn c msg) k = (c = k)"

fun str_exn :: "exn \<Rightarrow> string" where
  "str_exn (Exn c msg) = msg"

text \<open>
  \<^verbatim>\<open>hass.async_add_executor_job(job)\<close> runs the job on a worker thread; awaiting it gives
  the job's result or re-raises the job's exception.
\<close>

definition async_add_executor_job :: "(unit \<Rightarrow> exn + 'a) \<Rightarrow> exn + 'a" where
  "async_add_executor_job job = job ()"

section \<open>The Python library functions the code calls\<close>

text \<open>
  A Python string is a list of characters; a character stands for a code point below 256.
\<close>

subsection \<open>repr and str\<close>

text \<open>
  \<^verbatim>\<open>repr\<close> of a value; \<^verbatim>\<open>str\<close> of a dictionary is the same text. For a string Python
  takes the single quote as delimiter, and the double quote when the string has a single
  quote and no double quote; it escapes the delimiter and the backslash, writes tab,
  newline and carriage return as \<^verbatim>\<open>\t\<close>, \<^verbatim>\<open>\n\<close>, \<^verbatim>\<open>\r\<close>, and every other character
  that is not printable as \<^verbatim>\<open>\xhh\<close>. Below 256 the printable code points are 32 to 126
  and 161 to 255 without 173.
\<close>

definition hex_digit :: "nat \<Rightarrow> char" where
  "hex_digit n = ''0123456789abcdef'' ! n"

fun str_nat :: "nat \<Rightarrow> string" where
  "str_nat n = (if n < 10 then [hex_digit n] else str_nat (n div 10) @ [hex_digit (n mod 10)])"

declare str_nat.simps [simp del]

definition str_int :: "int \<Rightarrow> string" where
  "str_int i = (if i < 0 then CHR ''-'' # str_nat (nat (- i)) else str_nat (nat i))"

definition isprintable :: "char \<Rightarrow> bool" where
  "isprintable c =
     (let n = (of_char c :: nat)
      in 32 \<le> n \<and> n < 127 \<or> 161 \<le> n \<and> n \<noteq> 173)"

definition repr_char :: "char \<Rightarrow> char \<Rightarrow> string" where
  "repr_char quote c =
     (if c = quote \<or> c = CHR 0x5C then [CHR 0x5C, c]
      else if c = CHR 0x09 then [CHR 0x5C, CHR ''t'']
      else if c = CHR 0x0A then [CHR 0x5C, CHR ''n'']
      else if c = CHR 0x0D then [CHR 0x5C, CHR ''r'']
      else if isprintable c then [c]
      else [CHR 0x5C, CHR ''x'', hex_digit (of_char c div 16), hex_digit (of_char c mod 16)])"

definition repr_str :: "string \<Rightarrow> string" where
  "repr_str s =
     (let quote = (if CHR 0x27 \<in> set s \<and> CHR 0x22 \<notin> set s then CHR 0x22 else CHR 0x27)
      in [quote] @ concat (map (repr_char quote) s) @ [quote])"

fun join :: "string \<Rightarrow> string list \<Rightarrow> string" where
  "join sep [] = []"
| "join sep [x] = x"
| "join sep (x # y # ys) = x @ sep @ join sep (y # ys)"

fun repr :: "pyval \<Rightarrow> string" where
  "repr PNone = ''None''"
| "repr (PBool b) = (if b then ''True'' else ''False'')"
| "repr (PInt i) = str_int i"
| "repr (PStr s) = repr_str s"
| "repr (PList xs) = ''['' @ join '', '' (map repr xs) @ '']''"
| "repr (PTuple xs) =
     (if length xs = 1 then ''('' @ join '', '' (map repr xs) @ '',)''
      else ''('' @ join '', '' (map repr xs) @ '')'')"
| "repr (PDict kvs) =
     ''{'' @ join '', '' (map (\<lambda>(k, v). repr k @ '': '' @ repr v) kvs) @ ''}''"

subsection \<open>str.format\<close>

text \<open>
  \<^verbatim>\<open>template.format(**kw)\<close> for a template whose replacement fields are plain names, as
  the two of \<^verbatim>\<open>prompt_template\<close> are. A field \<open>{name}\<close> is replaced by the value of the
  keyword, which is not scanned again; \<open>{{\<close> and \<open>}}\<close> stand for a brace; a missing
  keyword raises \<^verbatim>\<open>KeyError\<close>, a brace left alone \<^verbatim>\<open>ValueError\<close>. Conversions and
  format specifications are not modelled. The template is read once, character by
  character: \<open>Opened\<close> and \<open>Closed\<close> are the states after one brace, \<open>Field\<close>
  holds the name read so far.
\<close>

definition emit :: "string \<Rightarrow> exn + string \<Rightarrow> exn + string" where
  "emit s r = (case r of Inl err \<Rightarrow> Inl err | Inr t \<Rightarrow> Inr (s @ t))"

datatype fstate = Text | Opened | Closed | Field string

fun format_scan :: "(string \<times> string) list \<Rightarrow> fstate \<Rightarrow> string \<Rightarrow> exn + string" where
  "format_scan kw Text [] = Inr []"
| "format_scan kw Opened [] = Inl (Exn ValueError ''Single { encountered in format string'')"
| "format_scan kw Closed [] = Inl (Exn ValueError ''Single } encountered in format string'')"
| "format_scan kw (Field name) [] = Inl (Exn ValueError ''expected } before end of string'')"
| "format_scan kw Text (c # cs) =
     (if c = CHR ''{'' then format_scan kw Opened cs
      else if c = CHR ''}'' then format_scan kw Closed cs
      else emit [c] (format_scan kw Text cs))"
| "format_scan kw Opened (c # cs) =
     (if c = CHR ''{'' then emit ''{'' (format_scan kw Text cs)
      else if c = CHR ''}'' then Inl (Exn (OtherException ''IndexError'')
             ''Replacement index 0 out of range for positional args tuple'')
      else format_scan kw (Field [c]) cs)"
| "format_scan kw Closed (c # cs) =
     (if c = CHR ''}'' then emit ''}'' (format_scan kw Text cs)
      else Inl (Exn ValueError ''Single } encountered in format string''))"
| "format_scan kw (Field name) (c # cs) =
     (if c = CHR ''}'' then
        (case map_of kw name of
           None \<Rightarrow> Inl (Exn KeyError (repr_str name))
         | Some v \<Rightarrow> emit v (format_scan kw Text cs))
      else format_scan kw (Field (name @ [c])) cs)"

definition format :: "string \<Rightarrow> (string \<times> string) list \<Rightarrow> exn + string" where
  "format template kw = format_scan kw Text template"

subsection \<open>ast.literal\_eval\<close>

text \<open>
  \<^verbatim>\<open>ast.literal_eval\<close> on these literals: strings in single or double quotes with the
  escapes \<^verbatim>\<open>\\\<close>, \<^verbatim>\<open>\'\<close>, \<^verbatim>\<open>\"\<close>, \<^verbatim>\<open>\n\<close>, \<^verbatim>\<open>\r\<close>, \<^verbatim>\<open>\t\<close> and \<^verbatim>\<open>\xhh\<close>; decimal
  integers, with a sign before them or not; \<^verbatim>\<open>True\<close>, \<^verbatim>\<open>False\<close>, \<^verbatim>\<open>None\<close>; lists,
  tuples and dictionaries of such literals, nested to any depth, a comma after the last
  element allowed. Python accepts more (floats, bytes, sets, prefixed and triple-quoted
  strings, adjacent strings, further escapes, a tuple without parentheses); these the
  model rejects with \<^verbatim>\<open>SyntaxError\<close>. In a dictionary a later pair replaces the value of
  an earlier pair with the same key; keys are compared as values of \<open>pyval\<close>, so
  \<^verbatim>\<open>True\<close> and \<^verbatim>\<open>1\<close> are two keys. The text of an exception is a fixed one: Python's
  names a position or an object.

  The lexer is an automaton over the characters. The parser reads the tokens once, with
  a stack of the brackets that are open. A name other than the three constants, or a sign
  before something other than an integer, is syntax but no literal: \<^verbatim>\<open>ValueError\<close>. A
  list or a dictionary as a key cannot be hashed: \<^verbatim>\<open>TypeError\<close>.
\<close>

datatype token =
    TOpen char
  | TClose char
  | TComma
  | TColon
  | TSign bool
  | TAtom pyval
  | TName string

datatype lstate =
    LStart
  | LStr char string
  | LEsc char string
  | LHex1 char string
  | LHex2 char string nat
  | LNum string
  | LName string

definition is_space :: "char \<Rightarrow> bool" where
  "is_space c = (c = CHR '' '' \<or> c = CHR 0x09 \<or> c = CHR 0x0A \<or> c = CHR 0x0D)"

definition is_digit :: "char \<Rightarrow> bool" where
  "is_digit c = (c \<in> set ''0123456789'')"

definition is_name_start :: "char \<Rightarrow> bool" where
  "is_name_start c =
     (c \<in> set ''abcdefghijklmnopqrstuvwxyzABCDEFGHIJKLMNOPQRSTUVWXYZ_'')"

definition hex_value :: "char \<Rightarrow> nat option" where
  "hex_value c =
     map_of (zip ''0123456789abcdef'' [0..<16] @ zip ''ABCDEF'' [10..<16]) c"

definition digit_value :: "char \<Rightarrow> nat" where
  "digit_value c = (case hex_value c of None \<Rightarrow> 0 | Some d \<Rightarrow> d)"

definition number_token :: "string \<Rightarrow> token option" where
  "number_token ds =
     (if length ds > 1 \<and> hd ds = CHR ''0'' \<and> set ds \<noteq> {CHR ''0''} then None
      else Some (TAtom (PInt (int (foldl (\<lambda>a d. 10 * a + digit_value d) 0 ds)))))"

definition name_token :: "string \<Rightarrow> token" where
  "name_token n =
     (if n = ''True'' then TAtom (PBool True)
      else if n = ''False'' then TAtom (PBool False)
      else if n = ''None'' then TAtom PNone
      else TName n)"

definition start_step :: "char \<Rightarrow> (token list \<times> lstate) option" where
  "start_step c =
     (if is_space c then Some ([], LStart)
      else if c \<in> set ''([{'' then Some ([TOpen c], LStart)
      else if c \<in> set '')]}'' then Some ([TClose c], LStart)
      else if c = CHR '','' then Some ([TComma], LStart)
      else if c = CHR '':'' then Some ([TColon], LStart)
      else if c = CHR ''-'' then Some ([TSign True], LStart)
      else if c = CHR ''+'' then Some ([TSign False], LStart)
      else if c = CHR 0x27 \<or> c = CHR 0x22 then Some ([], LStr c [])
      else if is_digit c then Some ([], LNum [c])
      else if is_name_start c then Some ([], LName [c])
      else None)"

definition after_token :: "token option \<Rightarrow> char \<Rightarrow> (token list \<times> lstate) option" where
  "after_token t c =
     (case t of
        None \<Rightarrow> None
      | Some tok \<Rightarrow>
          (case start_step c of
             None \<Rightarrow> None
           | Some (ts, st) \<Rightarrow> Some (tok # ts, st)))"

fun lex_step :: "lstate \<Rightarrow> char \<Rightarrow> (token list \<times> lstate) option" where
  "lex_step LStart c = start_step c"
| "lex_step (LStr q acc) c =
     (if c = q then Some ([TAtom (PStr acc)], LStart)
      else if c = CHR 0x5C then Some ([], LEsc q acc)
      else if c = CHR 0x0A \<or> c = CHR 0x0D then None
      else Some ([], LStr q (acc @ [c])))"
| "lex_step (LEsc q acc) c =
     (if c = CHR 0x5C \<or> c = CHR 0x27 \<or> c = CHR 0x22 then Some ([], LStr q (acc @ [c]))
      else if c = CHR ''n'' then Some ([], LStr q (acc @ [CHR 0x0A]))
      else if c = CHR ''r'' then Some ([], LStr q (acc @ [CHR 0x0D]))
      else if c = CHR ''t'' then Some ([], LStr q (acc @ [CHR 0x09]))
      else if c = CHR ''x'' then Some ([], LHex1 q acc)
      else None)"
| "lex_step (LHex1 q acc) c =
     (case hex_value c of None \<Rightarrow> None | Some d \<Rightarrow> Some ([], LHex2 q acc d))"
| "lex_step (LHex2 q acc d) c =
     (case hex_value c of
        None \<Rightarrow> None
      | Some e \<Rightarrow> Some ([], LStr q (acc @ [char_of (16 * d + e)])))"
| "lex_step (LNum ds) c =
     (if is_digit c then Some ([], LNum (ds @ [c]))
      else after_token (number_token ds) c)"
| "lex_step (LName n) c =
     (if is_name_start c \<or> is_digit c then Some ([], LName (n @ [c]))
      else after_token (Some (name_token n)) c)"

fun lex_end :: "lstate \<Rightarrow> token list option" where
  "lex_end LStart = Some []"
| "lex_end (LNum ds) = map_option (\<lambda>t. [t]) (number_token ds)"
| "lex_end (LName n) = Some [name_token n]"
| "lex_end st = None"

fun lexer :: "lstate \<Rightarrow> string \<Rightarrow> token list option" where
  "lexer st [] = lex_end st"
| "lexer st (c # cs) =
     (case lex_step st c of
        None \<Rightarrow> None
      | Some (ts, st') \<Rightarrow> map_option ((@) ts) (lexer st' cs))"

datatype frame =
    FList "pyval list"
  | FTuple "pyval list" bool
  | FDict "(pyval \<times> pyval) list" "pyval option"

datatype mode = MValue | MSigned bool | MAfter | MColon

datatype pstate = PS "frame list" mode | PDone pyval

fun deliver :: "pyval \<Rightarrow> frame list \<Rightarrow> pstate" where
  "deliver v [] = PDone v"
| "deliver v (FList items # st) = PS (FList (items @ [v]) # st) MAfter"
| "deliver v (FTuple items comma # st) = PS (FTuple (items @ [v]) comma # st) MAfter"
| "deliver v (FDict kvs None # st) = PS (FDict kvs (Some v) # st) MColon"
| "deliver v (FDict kvs (Some k) # st) = PS (FDict (AList.update k v kvs) None # st) MAfter"

fun close :: "char \<Rightarrow> frame list \<Rightarrow> pstate option" where
  "close c [] = None"
| "close c (FList items # st) =
     (if c = CHR '']'' then Some (deliver (PList items) st) else None)"
| "close c (FTuple items comma # st) =
     (if c \<noteq> CHR '')'' then None
      else if \<not> comma \<and> length items = 1 then Some (deliver (hd items) st)
      else Some (deliver (PTuple items) st))"
| "close c (FDict kvs pending # st) =
     (if c = CHR ''}'' \<and> pending = None then Some (deliver (PDict kvs) st) else None)"

fun comma :: "frame list \<Rightarrow> pstate option" where
  "comma [] = None"
| "comma (FTuple items seen # st) = Some (PS (FTuple items True # st) MValue)"
| "comma st = Some (PS st MValue)"

fun parse_step :: "pstate \<Rightarrow> token \<Rightarrow> (pstate \<times> bool) option" where
  "parse_step (PDone v) tok = None"
| "parse_step (PS st MValue) tok =
     (case tok of
        TAtom v \<Rightarrow> Some (deliver v st, True)
      | TName n \<Rightarrow> Some (deliver PNone st, False)
      | TOpen c \<Rightarrow>
          Some (PS ((if c = CHR ''['' then FList []
                     else if c = CHR ''('' then FTuple [] False
                     else FDict [] None) # st) MValue, True)
      | TSign neg \<Rightarrow> Some (PS st (MSigned neg), True)
      | TClose c \<Rightarrow> map_option (\<lambda>p. (p, True)) (close c st)
      | _ \<Rightarrow> None)"
| "parse_step (PS st (MSigned neg)) tok =
     (case tok of
        TAtom (PInt i) \<Rightarrow> Some (deliver (PInt (if neg then - i else i)) st, True)
      | TAtom v \<Rightarrow> Some (deliver PNone st, False)
      | TName n \<Rightarrow> Some (deliver PNone st, False)
      | _ \<Rightarrow> None)"
| "parse_step (PS st MAfter) tok =
     (case tok of
        TComma \<Rightarrow> map_option (\<lambda>p. (p, True)) (comma st)
      | TClose c \<Rightarrow> map_option (\<lambda>p. (p, True)) (close c st)
      | _ \<Rightarrow> None)"
| "parse_step (PS st MColon) tok =
     (case tok of TColon \<Rightarrow> Some (PS st MValue, True) | _ \<Rightarrow> None)"

fun parse :: "pstate \<Rightarrow> bool \<Rightarrow> token list \<Rightarrow> (pyval \<times> bool) option" where
  "parse (PDone v) ok [] = Some (v, ok)"
| "parse (PS st m) ok [] = None"
| "parse p ok (tok # toks) =
     (case parse_step p tok of
        None \<Rightarrow> None
      | Some (p', ok') \<Rightarrow> parse p' (ok \<and> ok') toks)"

fun hashable :: "pyval \<Rightarrow> bool" where
  "hashable (PList xs) = False"
| "hashable (PDict kvs) = False"
| "hashable (PTuple xs) = list_all hashable xs"
| "hashable v = True"

fun keys_hashable :: "pyval \<Rightarrow> bool" where
  "keys_hashable (PList xs) = list_all keys_hashable xs"
| "keys_hashable (PTuple xs) = list_all keys_hashable xs"
| "keys_hashable (PDict kvs) =
     list_all (\<lambda>(k, v). hashable k \<and> keys_hashable k \<and> keys_hashable v) kvs"
| "keys_hashable v = True"

definition literal_eval :: "string \<Rightarrow> exn + pyval" where
  "literal_eval s =
     (case lexer LStart s of
        None \<Rightarrow> Inl (Exn SyntaxError ''invalid syntax'')
      | Some toks \<Rightarrow>
          (case parse (PS [] MValue) True toks of
             None \<Rightarrow> Inl (Exn SyntaxError ''invalid syntax'')
           | Some (v, ok) \<Rightarrow>
               if \<not> ok then Inl (Exn ValueError ''malformed node or string'')
               else if \<not> keys_hashable v then Inl (Exn TypeError ''unhashable type'')
               else Inr v))"

section \<open>config\_flow.py\<close>

text \<open>
  \<^verbatim>\<open>requests.get\<close> is the network: a parameter \<open>requests_get\<close> that, for a URL, either
  raises or gives the status code of the response.
\<close>

type_synonym http = "string \<Rightarrow> exn + int"

definition check_connection :: "http \<Rightarrow> string \<Rightarrow> exn + string" where
  "check_connection requests_get host_url =
     (case requests_get host_url of
        Inl err \<Rightarrow> Inl err
      | Inr status_code \<Rightarrow>
          if status_code = 200 then Inr ''Connection to API successful!''
          else Inl (Exn RequestsHTTPError ''''))"

text \<open>
  \<^verbatim>\<open>functools.partial(func, **keywords)\<close> where \<open>func\<close> is a \<^verbatim>\<open>str\<close>: a string is not
  callable and \<^verbatim>\<open>partial\<close> raises \<^verbatim>\<open>TypeError\<close> for a first argument that is not.
\<close>

definition partial_str :: "string \<Rightarrow> (string \<times> int) list \<Rightarrow> exn + (unit \<Rightarrow> exn + unit)" where
  "partial_str func keywords = Inl (Exn TypeError ''the first argument must be callable'')"

text \<open>The data of the user step: the one required key of \<^verbatim>\<open>STEP_USER_DATA_SCHEMA\<close>.\<close>

record user_data =
  host_url :: string

text \<open>
  The argument of \<^verbatim>\<open>partial\<close> is the call \<^verbatim>\<open>check_connection(data[CONF_HOST_URL])\<close>, which
  Python evaluates first; \<^verbatim>\<open>partial\<close> then receives the string it returned.
\<close>

definition validate_input :: "http \<Rightarrow> user_data \<Rightarrow> exn + unit" where
  "validate_input requests_get data =
     (case check_connection requests_get (host_url data) of
        Inl err \<Rightarrow> Inl err
      | Inr func \<Rightarrow>
          (case partial_str func [(''request_timeout'', 10)] of
             Inl err \<Rightarrow> Inl err
           | Inr job \<Rightarrow> async_add_executor_job job))"

datatype FlowResult =
    async_show_form string "(string \<times> string) list option"
  | async_create_entry string user_data

definition async_step_user :: "http \<Rightarrow> user_data option \<Rightarrow> FlowResult" where
  "async_step_user requests_get user_input =
     (case user_input of
        None \<Rightarrow> async_show_form ''user'' None
      | Some data \<Rightarrow>
          (case validate_input requests_get data of
             Inl err \<Rightarrow>
               if isinstance err RequestsHTTPError
               then async_show_form ''user'' (Some [(''base'', ''cannot_connect'')])
               else async_show_form ''user'' (Some [(''base'', ''unknown'')])
           | Inr ok \<Rightarrow> async_create_entry ''H2OGPT Conversation'' data))"

section \<open>\_\_init\_\_.py: the agent and its setup\<close>

text \<open>
  A configuration entry: its id, \<^verbatim>\<open>entry.data[CONF_HOST_URL]\<close> and what
  \<^verbatim>\<open>entry.options\<close> holds under \<^verbatim>\<open>CONF_PROMPT_CONTEXT\<close>, if anything.
\<close>

record ConfigEntry =
  entry_id :: string
  data_host_url :: string
  options_prompt_context :: "string option"

text \<open>
  The agent object. \<^verbatim>\<open>self.history\<close> maps a conversation id to a list object; list
  objects are mutable and shared by reference, so the history holds addresses and
  \<open>objects\<close> is the store of the list objects, with \<open>next_addr\<close> the next free
  address. \<open>rpc_log\<close> records the calls made to \<^verbatim>\<open>client.predict\<close>, in order.
\<close>

type_synonym addr = nat

record H2OGPTAgent =
  entry :: ConfigEntry
  history :: "string \<rightharpoonup> addr"
  objects :: "addr \<rightharpoonup> pyval list"
  next_addr :: addr
  rpc_log :: "(string \<times> string) list"

definition H2OGPTAgent_init :: "ConfigEntry \<Rightarrow> H2OGPTAgent" where
  "H2OGPTAgent_init e =
     \<lparr>entry = e, history = Map.empty, objects = Map.empty, next_addr = 0, rpc_log = []\<rparr>"

text \<open>
  The part of \<^verbatim>\<open>hass\<close> that setup writes: \<^verbatim>\<open>hass.data[DOMAIN]\<close> and the
  conversation agent set for each entry.
\<close>

record hass =
  domain_data :: "string \<rightharpoonup> string"
  agents :: "string \<rightharpoonup> H2OGPTAgent"

text \<open>
  Setup returns a boolean or raises. \<^verbatim>\<open>request.URLError\<close> is the class of urllib;
  every other exception of the check becomes \<^verbatim>\<open>ConfigEntryNotReady(err)\<close>, whose text
  is that of \<open>err\<close>.
\<close>

definition async_setup_entry :: "http \<Rightarrow> hass \<Rightarrow> ConfigEntry \<Rightarrow> (exn + bool) \<times> hass" where
  "async_setup_entry requests_get hass e =
     (case async_add_executor_job (\<lambda>u. check_connection requests_get (data_host_url e)) of
        Inl err \<Rightarrow>
          if isinstance err URLError then (Inr False, hass)
          else (Inl (Exn ConfigEntryNotReady (str_exn err)), hass)
      | Inr ok \<Rightarrow>
          (Inr True,
           hass\<lparr>domain_data := (domain_data hass)(entry_id e \<mapsto> data_host_url e),
                agents := (agents hass)(entry_id e \<mapsto> H2OGPTAgent_init e)\<rparr>))"

subsection \<open>The request to the remote server\<close>

text \<open>
  A client is what \<^verbatim>\<open>client.predict(arg, api_name=...)\<close> answers: the reply text, or
  an exception. \<open>predict\<close> makes one call and appends it to the log of calls.
\<close>

type_synonym GradioClient = "string \<Rightarrow> string \<Rightarrow> exn + string"

definition predict ::
  "GradioClient \<Rightarrow> string \<Rightarrow> string \<Rightarrow> (string \<times> string) list
     \<Rightarrow> (exn + string) \<times> (string \<times> string) list" where
  "predict client arg api_name log = (client arg api_name, log @ [(arg, api_name)])"

text \<open>
  \<^verbatim>\<open>_call_h2o_gpt_api\<close>, without the underscore that a name here cannot begin with.
  \<^verbatim>\<open>str(kwargs)\<close> of a dictionary is its \<^verbatim>\<open>repr\<close>.
\<close>

definition call_h2o_gpt_api ::
  "GradioClient \<Rightarrow> string \<Rightarrow> (string \<times> string) list
     \<Rightarrow> (exn + string) \<times> (string \<times> string) list" where
  "call_h2o_gpt_api client prompt log =
     (let kwargs = PDict [(PStr ''stream_output'', PBool False),
                          (PStr ''max_time'', PInt 360),
                          (PStr ''instruction_nochat'', PStr prompt)]
      in predict client (repr kwargs) ''/submit_nochat_api'' log)"

text \<open>
  The template: a line break, the context between two lines of three double quotes, the
  question.
\<close>

definition prompt_template :: string where
  \<open>prompt_template = ''\<newline>"""\<newline>{context}\<newline>"""\<newline>{question}\<newline>''\<close>

text \<open>
  \<^verbatim>\<open>value["response"]\<close>: a dictionary is looked up and raises \<^verbatim>\<open>KeyError\<close> for a
  missing key; every other value raises \<^verbatim>\<open>TypeError\<close> for a string subscript.
\<close>

fun getitem :: "pyval \<Rightarrow> string \<Rightarrow> exn + pyval" where
  "getitem (PDict kvs) key =
     (case map_of kvs (PStr key) of
        None \<Rightarrow> Inl (Exn KeyError (repr (PStr key)))
      | Some v \<Rightarrow> Inr v)"
| "getitem (PStr s) key = Inl (Exn TypeError ''string indices must be integers'')"
| "getitem (PList xs) key =
     Inl (Exn TypeError ''list indices must be integers or slices, not str'')"
| "getitem (PTuple xs) key =
     Inl (Exn TypeError ''tuple indices must be integers or slices, not str'')"
| "getitem (PInt i) key =
     Inl (Exn TypeError (CHR 0x27 # ''int'' @ CHR 0x27 # '' object is not subscriptable''))"
| "getitem (PBool b) key =
     Inl (Exn TypeError (CHR 0x27 # ''bool'' @ CHR 0x27 # '' object is not subscriptable''))"
| "getitem PNone key =
     Inl (Exn TypeError (CHR 0x27 # ''NoneType'' @ CHR 0x27 # '' object is not subscriptable''))"

definition answer_question_using_context ::
  "GradioClient \<Rightarrow> string \<Rightarrow> string \<Rightarrow> (string \<times> string) list
     \<Rightarrow> (exn + pyval) \<times> (string \<times> string) list" where
  "answer_question_using_context client question context log =
     (case format prompt_template [(''context'', context), (''question'', question)] of
        Inl err \<Rightarrow> (Inl err, log)
      | Inr prompt \<Rightarrow>
          (case call_h2o_gpt_api client prompt log of
             (Inl err, log') \<Rightarrow> (Inl err, log')
           | (Inr answer, log') \<Rightarrow>
               (case literal_eval answer of
                  Inl err \<Rightarrow> (Inl err, log')
                | Inr v \<Rightarrow> (getitem v ''response'', log'))))"

subsection \<open>The conversation agent\<close>

text \<open>
  What one call of \<^verbatim>\<open>async_process\<close> takes from outside the agent: the constructor of
  the client for a host URL (it may raise), the identifier \<^verbatim>\<open>ulid.ulid()\<close> gives if it
  is called, and \<^verbatim>\<open>DEFAULT_PROMPT_CONTEXT\<close>, a constant of \<^verbatim>\<open>const.py\<close>, which is not
  among the sources.
\<close>

record env =
  gradio_client :: "string \<Rightarrow> exn + GradioClient"
  ulid :: string
  DEFAULT_PROMPT_CONTEXT :: string

record ConversationInput =
  user_text :: string
  conversation_id :: "string option"
  language :: string

datatype IntentResponseErrorCode = NO_INTENT_MATCH | NO_VALID_TARGETS | FAILED_TO_HANDLE | UNKNOWN

text \<open>
  An intent response for a language, with the speech set or with an error code and its
  message set.
\<close>

datatype IntentResponse =
    async_set_speech string pyval
  | async_set_error string IntentResponseErrorCode string

datatype ConversationResult =
  ConversationResult (result_response: IntentResponse) (result_conversation_id: string)

text \<open>
  List objects: \<open>list_new\<close> allocates one at the next free address, \<open>list_append\<close>
  is \<^verbatim>\<open>append\<close> on the object at an address, in place. The code only holds addresses
  that were allocated; at any other address \<open>list_at\<close> is the empty list.
\<close>

definition list_at :: "H2OGPTAgent \<Rightarrow> addr \<Rightarrow> pyval list" where
  "list_at self a = (case objects self a of None \<Rightarrow> [] | Some xs \<Rightarrow> xs)"

definition list_new :: "pyval list \<Rightarrow> H2OGPTAgent \<Rightarrow> addr \<times> H2OGPTAgent" where
  "list_new xs self =
     (next_addr self,
      self\<lparr>objects := (objects self)(next_addr self \<mapsto> xs), next_addr := Suc (next_addr self)\<rparr>)"

definition list_append :: "addr \<Rightarrow> pyval \<Rightarrow> H2OGPTAgent \<Rightarrow> H2OGPTAgent" where
  "list_append a x self = self\<lparr>objects := (objects self)(a \<mapsto> list_at self a @ [x])\<rparr>"

text \<open>The record \<^verbatim>\<open>{"role": role, "content": content}\<close>.\<close>

definition message :: "string \<Rightarrow> string \<Rightarrow> pyval" where
  "message role content = PDict [(PStr ''role'', PStr role), (PStr ''content'', PStr content)]"

text \<open>\<^verbatim>\<open>self.entry.options.get(CONF_PROMPT_CONTEXT, DEFAULT_PROMPT_CONTEXT)\<close>\<close>

definition raw_prompt_context :: "env \<Rightarrow> H2OGPTAgent \<Rightarrow> string" where
  "raw_prompt_context env self =
     (case options_prompt_context (entry self) of
        None \<Rightarrow> DEFAULT_PROMPT_CONTEXT env
      | Some p \<Rightarrow> p)"

text \<open>
  \<^verbatim>\<open>user_input.conversation_id in self.history\<close>, with the list object found there:
  \<^verbatim>\<open>None\<close> is never a key.
\<close>

definition in_history :: "H2OGPTAgent \<Rightarrow> string option \<Rightarrow> (string \<times> addr) option" where
  "in_history self cid =
     (case cid of
        None \<Rightarrow> None
      | Some c \<Rightarrow> (case history self c of None \<Rightarrow> None | Some a \<Rightarrow> Some (c, a)))"

text \<open>
  The client is made before the \<^verbatim>\<open>try\<close>; the \<^verbatim>\<open>try\<close> holds the call of
  \<^verbatim>\<open>answer_question_using_context\<close> alone. For a known conversation \<open>messages\<close> is
  the stored list object itself, so the \<^verbatim>\<open>append\<close> of the user message changes the
  stored list at once.
\<close>

definition async_process ::
  "env \<Rightarrow> H2OGPTAgent \<Rightarrow> ConversationInput \<Rightarrow> (exn + ConversationResult) \<times> H2OGPTAgent" where
  "async_process env self user_input =
     (case async_add_executor_job (\<lambda>u. gradio_client env (data_host_url (entry self))) of
        Inl err \<Rightarrow> (Inl err, self)
      | Inr client \<Rightarrow>
          (let context = raw_prompt_context env self;
               (conversation_id', messages, self1) =
                 (case in_history self (conversation_id user_input) of
                    Some (c, a) \<Rightarrow> (c, a, self)
                  | None \<Rightarrow>
                      (let (a, self') = list_new [message ''system'' context] self
                       in (ulid env, a, self')));
               self2 = list_append messages (message ''user'' (user_text user_input)) self1;
               (result, log) =
                 answer_question_using_context client (user_text user_input) context
                   (rpc_log self2);
               self3 = self2\<lparr>rpc_log := log\<rparr>
           in case result of
                Inl err \<Rightarrow>
                  (Inr (ConversationResult
                         (async_set_error (language user_input) UNKNOWN
                            (''Sorry, I had a problem talking to H2OGPT: '' @ str_exn err))
                         conversation_id'),
                   self3)
              | Inr response \<Rightarrow>
                  (let self4 = list_append messages response self3;
                       self5 = self4\<lparr>history := (history self4)(conversation_id' \<mapsto> messages)\<rparr>
                   in (Inr (ConversationResult
                             (async_set_speech (language user_input) response)
                             conversation_id'),
                       self5))))"

text \<open>The message list stored for a conversation id, if there is one.\<close>

definition stored :: "H2OGPTAgent \<Rightarrow> string \<Rightarrow> pyval list option" where
  "stored self cid =
     (case history self cid of None \<Rightarrow> None | Some a \<Rightarrow> Some (list_at self a))"

subsection \<open>Sequences of calls\<close>

text \<open>
  A call is what \<^verbatim>\<open>async_process\<close> receives together with what the outside gives
  during it. \<open>run\<close> makes the calls in order, each on the agent the one before left.
\<close>

type_synonym call = "env \<times> ConversationInput"

fun run :: "H2OGPTAgent \<Rightarrow> call list \<Rightarrow> H2OGPTAgent" where
  "run self [] = self"
| "run self (call # calls) = run (snd (async_process (fst call) self (snd call))) calls"

text \<open>What a call answered: a reply spoken under a conversation id, or an error reply.\<close>

definition speech_under :: "string \<Rightarrow> exn + ConversationResult \<Rightarrow> pyval option" where
  "speech_under cid res =
     (case res of
        Inr (ConversationResult (async_set_speech lang r) c) \<Rightarrow> if c = cid then Some r else None
      | _ \<Rightarrow> None)"

definition is_error :: "exn + ConversationResult \<Rightarrow> bool" where
  "is_error res =
     (case res of
        Inr (ConversationResult (async_set_error lang code msg) c) \<Rightarrow> True
      | _ \<Rightarrow> False)"

text \<open>
  The specification's account of a session: after the system message, one user message
  and one reply for each call answered successfully under the session's id, in order
  of arrival. \<open>successes\<close> counts these calls.
\<close>

definition exchange :: "string \<Rightarrow> H2OGPTAgent \<Rightarrow> call \<Rightarrow> pyval list" where
  "exchange cid self call =
     (case speech_under cid (fst (async_process (fst call) self (snd call))) of
        None \<Rightarrow> []
      | Some r \<Rightarrow> [message ''user'' (user_text (snd call)), r])"

fun exchanges :: "string \<Rightarrow> H2OGPTAgent \<Rightarrow> call list \<Rightarrow> pyval list" where
  "exchanges cid self [] = []"
| "exchanges cid self (call # calls) =
     exchange cid self call
       @ exchanges cid (snd (async_process (fst call) self (snd call))) calls"

fun successes :: "string \<Rightarrow> H2OGPTAgent \<Rightarrow> call list \<Rightarrow> nat" where
  "successes cid self [] = 0"
| "successes cid self (call # calls) =
     (case speech_under cid (fst (async_process (fst call) self (snd call))) of
        None \<Rightarrow> 0
      | Some r \<Rightarrow> 1)
       + successes cid (snd (async_process (fst call) self (snd call))) calls"

text \<open>
  A call fails on a session when it presents the id of a stored session and is answered
  with an error reply.
\<close>

definition failed_on :: "string \<Rightarrow> H2OGPTAgent \<Rightarrow> call \<Rightarrow> bool" where
  "failed_on cid self call =
     (conversation_id (snd call) = Some cid \<and> history self cid \<noteq> None
      \<and> is_error (fst (async_process (fst call) self (snd call))))"

fun no_failure_on :: "string \<Rightarrow> H2OGPTAgent \<Rightarrow> call list \<Rightarrow> bool" where
  "no_failure_on cid self [] = True"
| "no_failure_on cid self (call # calls) =
     (\<not> failed_on cid self call
      \<and> no_failure_on cid (snd (async_process (fst call) self (snd call))) calls)"

text \<open>
  ULIDs are unique: a call that mints an identifier mints one under which nothing is
  stored.
\<close>

definition mints_fresh :: "H2OGPTAgent \<Rightarrow> call \<Rightarrow> bool" where
  "mints_fresh self call =
     (in_history self (conversation_id (snd call)) \<noteq> None
      \<or> history self (ulid (fst call)) = None)"

fun fresh_ids :: "H2OGPTAgent \<Rightarrow> call list \<Rightarrow> bool" where
  "fresh_ids self [] = True"
| "fresh_ids self (call # calls) =
     (mints_fresh self call
      \<and> fresh_ids (snd (async_process (fst call) self (snd call))) calls)"

text \<open>
  The store is sound when no two conversations share a list object and every address
  in the history has been allocated. It holds of a new agent and every call keeps it.
\<close>

definition sound :: "H2OGPTAgent \<Rightarrow> bool" where
  "sound self =
     (inj_on (history self) (dom (history self))
      \<and> (\<forall>c a. history self c = Some a \<longrightarrow> a < next_addr self))"

subsection \<open>The request as specified\<close>



subsection \<open>Records\<close>


section \<open>Concrete networks\<close>

definition always_200 :: http where
  "always_200 url = Inr 200"

definition always_503 :: http where
  "always_503 url = Inr 503"

definition refused :: http where
  "refused url = Inl (Exn RequestsConnectionError ''Connection refused'')"

text \<open>A network that answers 200 to every HTTP URL; for a URL of another scheme \<^verbatim>\<open>requests\<close> has no adapter.\<close>

definition http_only :: http where
  "http_only url =
     (if take 4 url = ''http'' then Inr 200
      else Inl (Exn (OtherException ''InvalidSchema'')
                  (''No connection adapters were found for '' @ repr_str url)))"

definition url_error :: http where
  "url_error url = Inl (Exn URLError ''unknown url type'')"

definition local_url :: string where
  "local_url = ''http://h2ogpt.local:7860''"

definition local_entry :: ConfigEntry where
  "local_entry =
     \<lparr>entry_id = ''entry1'', data_host_url = local_url, options_prompt_context = None\<rparr>"

text \<open>An entry whose host URL was entered without its scheme.\<close>

definition schemeless_entry :: ConfigEntry where
  "schemeless_entry =
     \<lparr>entry_id = ''entry2'', data_host_url = ''h2ogpt.local:7860'',
      options_prompt_context = None\<rparr>"

definition empty_hass :: hass where
  "empty_hass = \<lparr>domain_data = Map.empty, agents = Map.empty\<rparr>"

section \<open>Concrete clients, calls and agents\<close>

definition stub_client :: "string \<Rightarrow> GradioClient" where
  "stub_client reply arg api_name = Inr reply"

definition failing_client :: GradioClient where
  "failing_client arg api_name =
     Inl (Exn (OtherException ''ConnectionError'') ''Connection refused'')"

definition stub_env :: "string \<Rightarrow> string \<Rightarrow> env" where
  "stub_env reply uid =
     \<lparr>gradio_client = (\<lambda>url. Inr (stub_client reply)), ulid = uid,
      DEFAULT_PROMPT_CONTEXT = ''Be brief.''\<rparr>"

definition failing_env :: "string \<Rightarrow> env" where
  "failing_env uid =
     \<lparr>gradio_client = (\<lambda>url. Inr failing_client), ulid = uid,
      DEFAULT_PROMPT_CONTEXT = ''Be brief.''\<rparr>"

definition unreachable_env :: "string \<Rightarrow> env" where
  "unreachable_env uid =
     \<lparr>gradio_client =
        (\<lambda>url. Inl (Exn (OtherException ''ConnectionError'') ''Connection refused'')),
      ulid = uid, DEFAULT_PROMPT_CONTEXT = ''Be brief.''\<rparr>"

definition utterance :: "string \<Rightarrow> string option \<Rightarrow> ConversationInput" where
  "utterance t cid = \<lparr>user_text = t, conversation_id = cid, language = ''en''\<rparr>"

definition hi_there :: string where
  \<open>hi_there = ''{"response": "hi there"}''\<close>

definition agent0 :: H2OGPTAgent where
  "agent0 = H2OGPTAgent_init local_entry"

text \<open>The agent after a first utterance answered with \<open>hi there\<close> under the id \<open>01A\<close>.\<close>

definition after_hi :: H2OGPTAgent where
  "after_hi = snd (async_process (stub_env hi_there ''01A'') agent0 (utterance ''hi'' None))"

section \<open>The setup wizard\<close>

lemma validate_input_raises: "validate_input requests_get data \<noteq> Inr ok"
  by (simp add: validate_input_def partial_str_def split: sum.splits)

text \<open>
  C1. In the wizard a reachable host should lead to the configuration entry. The code
  evaluates the check first and hands its result, a string, to \<^verbatim>\<open>partial\<close>: with status
  200 validation raises \<^verbatim>\<open>TypeError\<close>, the form is shown again with the error
  \<open>unknown\<close>, and no entry is created. The timeout of 10 never reaches the check.
\<close>

theorem wizard_reachable_host_shows_unknown:
  "validate_input always_200 \<lparr>host_url = local_url\<rparr>
     = Inl (Exn TypeError ''the first argument must be callable'')
   \<and> async_step_user always_200 (Some \<lparr>host_url = local_url\<rparr>)
     = async_show_form ''user'' (Some [(''base'', ''unknown'')])"
  by (simp add: async_step_user_def validate_input_def check_connection_def
      partial_str_def always_200_def)

section \<open>The reachability check\<close>

lemma check_connection_200:
  "requests_get url = Inr 200 \<Longrightarrow>
     check_connection requests_get url = Inr ''Connection to API successful!''"
  by (simp add: check_connection_def)

lemma check_connection_status:
  "requests_get url = Inr status \<Longrightarrow> status \<noteq> 200 \<Longrightarrow>
     check_connection requests_get url = Inl (Exn RequestsHTTPError '''')"
  by (simp add: check_connection_def)

lemma check_connection_transport:
  "requests_get url = Inl err \<Longrightarrow> check_connection requests_get url = Inl err"
  by (simp add: check_connection_def)

lemma check_connection_success_iff:
  "(\<exists>msg. check_connection requests_get url = Inr msg) \<longleftrightarrow> requests_get url = Inr 200"
  by (auto simp: check_connection_def split: sum.splits if_splits)

text \<open>
  C2, as stated, fails on a transport failure. \<^verbatim>\<open>requests.get\<close> raises its own
  exception, here a connection error; the check does not catch it, so it is not the
  \<^verbatim>\<open>HTTPError\<close> that the wizard maps to \<open>cannot_connect\<close>, and the wizard records
  \<open>unknown\<close>.
\<close>

theorem transport_failure_is_not_http_error:
  "check_connection refused local_url = Inl (Exn RequestsConnectionError ''Connection refused'')
   \<and> \<not> isinstance (Exn RequestsConnectionError ''Connection refused'') RequestsHTTPError
   \<and> async_step_user refused (Some \<lparr>host_url = local_url\<rparr>)
       = async_show_form ''user'' (Some [(''base'', ''unknown'')])"
  by (simp add: check_connection_def refused_def async_step_user_def validate_input_def)

text \<open>
  C2, amended. The check succeeds exactly when the GET answers status 200. Any other
  status raises \<^verbatim>\<open>HTTPError\<close>, which the wizard maps to \<open>cannot_connect\<close>. An
  exception of the GET itself is not converted: it propagates unchanged, and the wizard
  maps it to \<open>unknown\<close> unless it is an \<^verbatim>\<open>HTTPError\<close>.
\<close>

theorem check_connection_outcomes:
  "((\<exists>msg. check_connection requests_get url = Inr msg) \<longleftrightarrow> requests_get url = Inr 200)
   \<and> (requests_get url = Inr status \<and> status \<noteq> 200 \<longrightarrow>
        check_connection requests_get url = Inl (Exn RequestsHTTPError '''')
        \<and> async_step_user requests_get (Some \<lparr>host_url = url\<rparr>)
            = async_show_form ''user'' (Some [(''base'', ''cannot_connect'')]))
   \<and> (requests_get url = Inl err \<longrightarrow>
        check_connection requests_get url = Inl err
        \<and> async_step_user requests_get (Some \<lparr>host_url = url\<rparr>)
            = async_show_form ''user''
                (Some [(''base'', if isinstance err RequestsHTTPError
                                  then ''cannot_connect'' else ''unknown'')]))"
  by (auto simp: check_connection_def async_step_user_def validate_input_def
      split: sum.splits)

theorem check_connection_outcomes_witness:
  "(\<exists>msg. check_connection always_200 local_url = Inr msg)
   \<and> always_503 local_url = Inr 503 \<and> (503::int) \<noteq> 200
   \<and> check_connection always_503 local_url = Inl (Exn RequestsHTTPError '''')
   \<and> async_step_user always_503 (Some \<lparr>host_url = local_url\<rparr>)
       = async_show_form ''user'' (Some [(''base'', ''cannot_connect'')])
   \<and> refused local_url = Inl (Exn RequestsConnectionError ''Connection refused'')
   \<and> check_connection refused local_url
       = Inl (Exn RequestsConnectionError ''Connection refused'')
   \<and> async_step_user refused (Some \<lparr>host_url = local_url\<rparr>)
       = async_show_form ''user'' (Some [(''base'', ''unknown'')])"
  using check_connection_outcomes [of always_200 local_url 503]
    check_connection_outcomes [of always_503 local_url 503]
    check_connection_outcomes
      [of refused local_url 503 "Exn RequestsConnectionError ''Connection refused''"]
  by (simp add: always_200_def always_503_def refused_def)

section \<open>Setup\<close>

text \<open>
  C8, as stated, fails for an exception that is not a reachability failure. For a host
  URL entered without its scheme \<^verbatim>\<open>requests.get\<close> raises \<^verbatim>\<open>InvalidSchema\<close> before
  any connection is tried, and setup answers it with \<^verbatim>\<open>ConfigEntryNotReady\<close>, the retry
  signal, exactly as it answers status 503. It does not return \<open>False\<close>.
\<close>

theorem setup_other_exception_is_not_fatal:
  "fst (async_setup_entry http_only empty_hass schemeless_entry)
     = Inl (Exn ConfigEntryNotReady
             (''No connection adapters were found for ''
                @ [CHR 0x27] @ ''h2ogpt.local:7860'' @ [CHR 0x27]))
   \<and> fst (async_setup_entry http_only empty_hass schemeless_entry) \<noteq> Inr False
   \<and> fst (async_setup_entry always_503 empty_hass local_entry)
     = Inl (Exn ConfigEntryNotReady '''')"
  by (simp add: async_setup_entry_def async_add_executor_job_def check_connection_def
      http_only_def schemeless_entry_def always_503_def repr_str_def repr_char_def
      isprintable_def Let_def)

text \<open>
  C8, amended. At setup a status other than 200, and every exception of the check that
  is not a urllib \<^verbatim>\<open>URLError\<close>, raises \<^verbatim>\<open>ConfigEntryNotReady\<close> (not ready, retry
  later). Only a \<^verbatim>\<open>URLError\<close> makes setup return \<open>False\<close>. In all these cases
  \<^verbatim>\<open>hass\<close> is left as it was: no data is stored and no agent is set.
\<close>

theorem setup_failure_outcomes:
  "(requests_get (data_host_url e) = Inr status \<and> status \<noteq> 200 \<longrightarrow>
      async_setup_entry requests_get h e = (Inl (Exn ConfigEntryNotReady ''''), h))
   \<and> (requests_get (data_host_url e) = Inl err \<and> \<not> isinstance err URLError \<longrightarrow>
      async_setup_entry requests_get h e = (Inl (Exn ConfigEntryNotReady (str_exn err)), h))
   \<and> (requests_get (data_host_url e) = Inl err \<and> isinstance err URLError \<longrightarrow>
      async_setup_entry requests_get h e = (Inr False, h))"
  by (cases err)
    (auto simp: async_setup_entry_def async_add_executor_job_def check_connection_def)

theorem setup_failure_outcomes_witness:
  "always_503 (data_host_url local_entry) = Inr 503 \<and> (503::int) \<noteq> 200
   \<and> async_setup_entry always_503 empty_hass local_entry
       = (Inl (Exn ConfigEntryNotReady ''''), empty_hass)
   \<and> refused (data_host_url local_entry)
       = Inl (Exn RequestsConnectionError ''Connection refused'')
   \<and> \<not> isinstance (Exn RequestsConnectionError ''Connection refused'') URLError
   \<and> async_setup_entry refused empty_hass local_entry
       = (Inl (Exn ConfigEntryNotReady ''Connection refused''), empty_hass)
   \<and> url_error (data_host_url local_entry) = Inl (Exn URLError ''unknown url type'')
   \<and> isinstance (Exn URLError ''unknown url type'') URLError
   \<and> async_setup_entry url_error empty_hass local_entry = (Inr False, empty_hass)"
  using setup_failure_outcomes [of always_503 local_entry 503 empty_hass]
    setup_failure_outcomes
      [of refused local_entry 503 empty_hass "Exn RequestsConnectionError ''Connection refused''"]
    setup_failure_outcomes
      [of url_error local_entry 503 empty_hass "Exn URLError ''unknown url type''"]
  by (simp add: always_503_def refused_def url_error_def)

section \<open>The request and the reply\<close>

lemma emit_Inr: "emit s (Inr t) = Inr (s @ t)"
  by (simp add: emit_def)

lemma prompt_format:
  \<open>format prompt_template [(''context'', context), (''question'', question)]
     = Inr (''\<newline>"""\<newline>'' @ context @ ''\<newline>"""\<newline>'' @ question @ ''\<newline>'')\<close>
  by (simp add: format_def prompt_template_def emit_Inr)



lemma answer_question_eq:
  \<open>answer_question_using_context client question context log =
     (let request = repr (PDict [(PStr ''stream_output'', PBool False),
                                 (PStr ''max_time'', PInt 360),
                                 (PStr ''instruction_nochat'',
                                  PStr (''\<newline>"""\<newline>'' @ context @ ''\<newline>"""\<newline>''
                                          @ question @ ''\<newline>''))])
      in ((case client request ''/submit_nochat_api'' of
             Inl err \<Rightarrow> Inl err
           | Inr answer \<Rightarrow>
               (case literal_eval answer of
                  Inl err \<Rightarrow> Inl err
                | Inr v \<Rightarrow> getitem v ''response'')),
          log @ [(request, ''/submit_nochat_api'')]))\<close>
  unfolding answer_question_using_context_def prompt_format call_h2o_gpt_api_def predict_def
  by (simp add: Let_def split: sum.splits)

lemma answer_stub:
  "fst (answer_question_using_context (stub_client reply) question context log) =
     (case literal_eval reply of Inl err \<Rightarrow> Inl err | Inr v \<Rightarrow> getitem v ''response'')"
  by (simp add: answer_question_eq stub_client_def Let_def)

lemma answer_failing:
  "fst (answer_question_using_context failing_client question context log) =
     Inl (Exn (OtherException ''ConnectionError'') ''Connection refused'')"
  by (simp add: answer_question_eq failing_client_def Let_def)

lemmas lex_defs = start_step_def is_space_def is_digit_def is_name_start_def
  after_token_def name_token_def


lemma literal_eval_hi_there:
  "literal_eval hi_there = Inr (PDict [(PStr ''response'', PStr ''hi there'')])"
  by (simp add: hi_there_def literal_eval_def lex_defs)


section \<open>One call of the agent\<close>

lemma async_process_client_error:
  "gradio_client env (data_host_url (entry self)) = Inl err \<Longrightarrow>
     async_process env self inp = (Inl err, self)"
  by (simp add: async_process_def async_add_executor_job_def)

lemma process_known_failure:
  assumes "gradio_client env (data_host_url (entry self)) = Inr client"
    and "conversation_id inp = Some c" and "history self c = Some a"
    and "answer_question_using_context client (user_text inp) (raw_prompt_context env self)
           (rpc_log self) = (Inl err, log)"
  shows "async_process env self inp =
           (Inr (ConversationResult
                  (async_set_error (language inp) UNKNOWN
                     (''Sorry, I had a problem talking to H2OGPT: '' @ str_exn err)) c),
            self\<lparr>objects := (objects self)(a \<mapsto> list_at self a @ [message ''user'' (user_text inp)]),
                 rpc_log := log\<rparr>)"
  using assms
  by (simp add: async_process_def async_add_executor_job_def in_history_def Let_def
      list_append_def)

lemma process_known_success:
  assumes "gradio_client env (data_host_url (entry self)) = Inr client"
    and "conversation_id inp = Some c" and "history self c = Some a"
    and "answer_question_using_context client (user_text inp) (raw_prompt_context env self)
           (rpc_log self) = (Inr r, log)"
  shows "async_process env self inp =
           (Inr (ConversationResult (async_set_speech (language inp) r) c),
            self\<lparr>objects := (objects self)(a \<mapsto> list_at self a @ [message ''user'' (user_text inp), r]),
                 rpc_log := log\<rparr>)"
  using assms
  by (simp add: async_process_def async_add_executor_job_def in_history_def Let_def
      list_append_def list_at_def fun_upd_idem)

lemma process_new_failure:
  assumes "gradio_client env (data_host_url (entry self)) = Inr client"
    and "in_history self (conversation_id inp) = None"
    and "answer_question_using_context client (user_text inp) (raw_prompt_context env self)
           (rpc_log self) = (Inl err, log)"
  shows "async_process env self inp =
           (Inr (ConversationResult
                  (async_set_error (language inp) UNKNOWN
                     (''Sorry, I had a problem talking to H2OGPT: '' @ str_exn err)) (ulid env)),
            self\<lparr>objects := (objects self)(next_addr self \<mapsto>
                    [message ''system'' (raw_prompt_context env self),
                     message ''user'' (user_text inp)]),
                 next_addr := Suc (next_addr self),
                 rpc_log := log\<rparr>)"
  using assms
  by (simp add: async_process_def async_add_executor_job_def Let_def
      list_append_def list_new_def list_at_def)

lemma process_new_success:
  assumes "gradio_client env (data_host_url (entry self)) = Inr client"
    and "in_history self (conversation_id inp) = None"
    and "answer_question_using_context client (user_text inp) (raw_prompt_context env self)
           (rpc_log self) = (Inr r, log)"
  shows "async_process env self inp =
           (Inr (ConversationResult (async_set_speech (language inp) r) (ulid env)),
            self\<lparr>history := (history self)(ulid env \<mapsto> next_addr self),
                 objects := (objects self)(next_addr self \<mapsto>
                    [message ''system'' (raw_prompt_context env self),
                     message ''user'' (user_text inp), r]),
                 next_addr := Suc (next_addr self),
                 rpc_log := log\<rparr>)"
  using assms
  by (simp add: async_process_def async_add_executor_job_def Let_def
      list_append_def list_new_def list_at_def)

lemma in_history_None_iff:
  "in_history self cid = None \<longleftrightarrow> (\<forall>c. cid = Some c \<longrightarrow> history self c = None)"
  by (auto simp: in_history_def split: option.splits)

lemma in_history_Some_iff:
  "in_history self cid = Some (c, a) \<longleftrightarrow> cid = Some c \<and> history self c = Some a"
  by (auto simp: in_history_def split: option.splits)

text \<open>The four outcomes of a call whose client was made, and the one where it was not.\<close>

lemma process_cases:
  obtains
    (raise) err where "gradio_client env (data_host_url (entry self)) = Inl err"
      "async_process env self inp = (Inl err, self)"
  | (known_failure) c a err log where
      "conversation_id inp = Some c" "history self c = Some a"
      "async_process env self inp =
         (Inr (ConversationResult
                (async_set_error (language inp) UNKNOWN
                   (''Sorry, I had a problem talking to H2OGPT: '' @ str_exn err)) c),
          self\<lparr>objects := (objects self)(a \<mapsto> list_at self a @ [message ''user'' (user_text inp)]),
               rpc_log := log\<rparr>)"
  | (known_success) c a r log where
      "conversation_id inp = Some c" "history self c = Some a"
      "async_process env self inp =
         (Inr (ConversationResult (async_set_speech (language inp) r) c),
          self\<lparr>objects := (objects self)(a \<mapsto> list_at self a @ [message ''user'' (user_text inp), r]),
               rpc_log := log\<rparr>)"
  | (new_failure) err log where
      "in_history self (conversation_id inp) = None"
      "async_process env self inp =
         (Inr (ConversationResult
                (async_set_error (language inp) UNKNOWN
                   (''Sorry, I had a problem talking to H2OGPT: '' @ str_exn err)) (ulid env)),
          self\<lparr>objects := (objects self)(next_addr self \<mapsto>
                  [message ''system'' (raw_prompt_context env self),
                   message ''user'' (user_text inp)]),
               next_addr := Suc (next_addr self),
               rpc_log := log\<rparr>)"
  | (new_success) r log where
      "in_history self (conversation_id inp) = None"
      "async_process env self inp =
         (Inr (ConversationResult (async_set_speech (language inp) r) (ulid env)),
          self\<lparr>history := (history self)(ulid env \<mapsto> next_addr self),
               objects := (objects self)(next_addr self \<mapsto>
                  [message ''system'' (raw_prompt_context env self),
                   message ''user'' (user_text inp), r]),
               next_addr := Suc (next_addr self),
               rpc_log := log\<rparr>)"
proof (cases "gradio_client env (data_host_url (entry self))")
  case (Inl err)
  then show ?thesis using raise async_process_client_error by blast
next
  case (Inr client)
  obtain res log where ans:
    "answer_question_using_context client (user_text inp) (raw_prompt_context env self)
       (rpc_log self) = (res, log)"
    by (cases "answer_question_using_context client (user_text inp)
         (raw_prompt_context env self) (rpc_log self)")
  show ?thesis
  proof (cases "in_history self (conversation_id inp)")
    case None
    show ?thesis
    proof (cases res)
      case (Inl err)
      then show ?thesis
        using new_failure None process_new_failure [OF Inr None] ans by blast
    next
      case r: (Inr r)
      then show ?thesis
        using new_success None process_new_success [OF Inr None] ans by blast
    qed
  next
    case (Some ca)
    then obtain c a where ca: "conversation_id inp = Some c" "history self c = Some a"
      by (cases ca) (auto simp: in_history_Some_iff)
    show ?thesis
    proof (cases res)
      case (Inl err)
      then show ?thesis
        using known_failure ca process_known_failure [OF Inr ca] ans by blast
    next
      case r: (Inr r)
      then show ?thesis
        using known_success ca process_known_success [OF Inr ca] ans by blast
    qed
  qed
qed

section \<open>The agent after the first utterance\<close>

lemma agent0_fields:
  "entry agent0 = local_entry" "history agent0 = Map.empty" "objects agent0 = Map.empty"
  "next_addr agent0 = 0" "rpc_log agent0 = []"
  by (simp_all add: agent0_def H2OGPTAgent_init_def)

lemma raw_prompt_context_local:
  "entry self = local_entry \<Longrightarrow> DEFAULT_PROMPT_CONTEXT env = ''Be brief.'' \<Longrightarrow>
     raw_prompt_context env self = ''Be brief.''"
  by (simp add: raw_prompt_context_def local_entry_def)

lemma first_call:
  "\<exists>log. async_process (stub_env hi_there ''01A'') agent0 (utterance ''hi'' None) =
     (Inr (ConversationResult (async_set_speech ''en'' (PStr ''hi there'')) ''01A''),
      agent0\<lparr>history := [''01A'' \<mapsto> 0],
             objects := [0 \<mapsto> [message ''system'' ''Be brief.'', message ''user'' ''hi'',
                                PStr ''hi there'']],
             next_addr := Suc 0,
             rpc_log := log\<rparr>)"
proof -
  let ?env = "stub_env hi_there ''01A''" and ?inp = "utterance ''hi'' None"
  have ctx: "raw_prompt_context ?env agent0 = ''Be brief.''"
    by (rule raw_prompt_context_local) (simp_all add: agent0_fields stub_env_def)
  have c: "gradio_client ?env (data_host_url (entry agent0)) = Inr (stub_client hi_there)"
    by (simp add: stub_env_def)
  have n: "in_history agent0 (conversation_id ?inp) = None"
    by (simp add: in_history_def utterance_def)
  obtain log where a: "answer_question_using_context (stub_client hi_there) (user_text ?inp)
      (raw_prompt_context ?env agent0) (rpc_log agent0) = (Inr (PStr ''hi there''), log)"
    using answer_stub [of hi_there "user_text ?inp" "raw_prompt_context ?env agent0" "rpc_log agent0"]
    by (cases "answer_question_using_context (stub_client hi_there) (user_text ?inp)
      (raw_prompt_context ?env agent0) (rpc_log agent0)") (simp add: literal_eval_hi_there)
  have u: "ulid ?env = ''01A''" by (simp add: stub_env_def)
  have l: "language ?inp = ''en''" "user_text ?inp = ''hi''" by (simp_all add: utterance_def)
  show ?thesis
    using process_new_success [OF c n a] unfolding ctx u l agent0_fields
    by (intro exI [of _ log]) simp
qed

lemma after_hi_fields:
  "entry after_hi = local_entry" "history after_hi = [''01A'' \<mapsto> 0]"
  "objects after_hi = [0 \<mapsto> [message ''system'' ''Be brief.'', message ''user'' ''hi'',
                               PStr ''hi there'']]"
  "next_addr after_hi = Suc 0"
  using first_call by (auto simp: after_hi_def agent0_fields)

section \<open>A failed call on a stored session\<close>

lemma second_call_fails:
  "\<exists>log. async_process (failing_env ''01B'') after_hi (utterance ''again'' (Some ''01A'')) =
     (Inr (ConversationResult
            (async_set_error ''en'' UNKNOWN
               ''Sorry, I had a problem talking to H2OGPT: Connection refused'') ''01A''),
      after_hi\<lparr>objects := (objects after_hi)(0 \<mapsto>
                  [message ''system'' ''Be brief.'', message ''user'' ''hi'', PStr ''hi there'',
                   message ''user'' ''again'']),
                rpc_log := log\<rparr>)"
proof -
  let ?env = "failing_env ''01B''" and ?inp = "utterance ''again'' (Some ''01A'')"
  have c: "gradio_client ?env (data_host_url (entry after_hi)) = Inr failing_client"
    by (simp add: failing_env_def)
  have i: "conversation_id ?inp = Some ''01A''" by (simp add: utterance_def)
  have h: "history after_hi ''01A'' = Some 0" by (simp add: after_hi_fields)
  obtain log where a: "answer_question_using_context failing_client (user_text ?inp)
      (raw_prompt_context ?env after_hi) (rpc_log after_hi)
      = (Inl (Exn (OtherException ''ConnectionError'') ''Connection refused''), log)"
    using answer_failing [of "user_text ?inp" "raw_prompt_context ?env after_hi" "rpc_log after_hi"]
    by (cases "answer_question_using_context failing_client (user_text ?inp)
      (raw_prompt_context ?env after_hi) (rpc_log after_hi)") simp
  have l: "language ?inp = ''en''" "user_text ?inp = ''again''" by (simp_all add: utterance_def)
  have at: "list_at after_hi 0
      = [message ''system'' ''Be brief.'', message ''user'' ''hi'', PStr ''hi there'']"
    by (simp add: list_at_def after_hi_fields)
  show ?thesis
    using process_known_failure [OF c i h a] unfolding l at
    by (intro exI [of _ log]) simp
qed

text \<open>
  C3. A failed call should leave the stored message list as long as it was. For a stored
  session the code appends the user message to the stored list object itself, before
  the remote call; when that call fails the message stays. Here the list stored under
  \<open>01A\<close> has three messages before the failed call and four after it.
\<close>

theorem failed_call_keeps_user_message:
  "stored after_hi ''01A''
     = Some [message ''system'' ''Be brief.'', message ''user'' ''hi'', PStr ''hi there'']
   \<and> fst (async_process (failing_env ''01B'') after_hi (utterance ''again'' (Some ''01A'')))
     = Inr (ConversationResult
             (async_set_error ''en'' UNKNOWN
                ''Sorry, I had a problem talking to H2OGPT: Connection refused'') ''01A'')
   \<and> stored (snd (async_process (failing_env ''01B'') after_hi
                    (utterance ''again'' (Some ''01A'')))) ''01A''
     = Some [message ''system'' ''Be brief.'', message ''user'' ''hi'', PStr ''hi there'',
             message ''user'' ''again'']"
  using second_call_fails
  by (auto simp: stored_def list_at_def after_hi_fields)

section \<open>Errors of a call\<close>

text \<open>
  C5, as stated, fails when the client cannot be made: \<^verbatim>\<open>GradioClient(...)\<close> is
  constructed before the \<^verbatim>\<open>try\<close>, so its exception leaves \<^verbatim>\<open>async_process\<close>
  uncaught and no reply is produced.
\<close>

theorem client_error_is_not_caught:
  "async_process (unreachable_env ''01A'') agent0 (utterance ''hi'' None)
     = (Inl (Exn (OtherException ''ConnectionError'') ''Connection refused''), agent0)"
  by (simp add: async_process_client_error unreachable_env_def)

text \<open>
  C5, amended. Once the client is made, a call never raises: every error of the remote
  interaction (building the prompt, the RPC, parsing the reply) is caught and becomes
  the error reply \<open>Sorry, I had a problem talking to H2OGPT: <detail>\<close> with the code
  \<open>UNKNOWN\<close>, returned with the session id (the one presented if it is stored, else
  the one just minted). An error of the client's construction is not caught.
\<close>

theorem remote_errors_become_replies:
  "(gradio_client env (data_host_url (entry self)) = Inr client \<longrightarrow>
      (\<exists>res. fst (async_process env self inp) = Inr res)
      \<and> (\<forall>err log.
            answer_question_using_context client (user_text inp)
              (raw_prompt_context env self) (rpc_log self) = (Inl err, log) \<longrightarrow>
            fst (async_process env self inp)
              = Inr (ConversationResult
                      (async_set_error (language inp) UNKNOWN
                         (''Sorry, I had a problem talking to H2OGPT: '' @ str_exn err))
                      (case in_history self (conversation_id inp) of
                         None \<Rightarrow> ulid env
                       | Some (c, a) \<Rightarrow> c))))
   \<and> (gradio_client env (data_host_url (entry self)) = Inl err' \<longrightarrow>
        async_process env self inp = (Inl err', self))"
proof (intro conjI impI allI)
  assume "gradio_client env (data_host_url (entry self)) = Inr client"
  then show "\<exists>res. fst (async_process env self inp) = Inr res"
    by (cases rule: process_cases [of env self inp]) auto
next
  fix err log
  assume c: "gradio_client env (data_host_url (entry self)) = Inr client"
    and a: "answer_question_using_context client (user_text inp)
              (raw_prompt_context env self) (rpc_log self) = (Inl err, log)"
  show "fst (async_process env self inp)
          = Inr (ConversationResult
                  (async_set_error (language inp) UNKNOWN
                     (''Sorry, I had a problem talking to H2OGPT: '' @ str_exn err))
                  (case in_history self (conversation_id inp) of
                     None \<Rightarrow> ulid env
                   | Some (c, a) \<Rightarrow> c))"
  proof (cases "in_history self (conversation_id inp)")
    case None
    then show ?thesis using process_new_failure [OF c None a] by simp
  next
    case (Some ca)
    then obtain k b where "conversation_id inp = Some k" "history self k = Some b" "ca = (k, b)"
      by (cases ca) (auto simp: in_history_Some_iff)
    then show ?thesis using process_known_failure [OF c _ _ a] Some by simp
  qed
next
  assume "gradio_client env (data_host_url (entry self)) = Inl err'"
  then show "async_process env self inp = (Inl err', self)"
    by (rule async_process_client_error)
qed

theorem remote_errors_become_replies_witness:
  "gradio_client (failing_env ''01B'') (data_host_url (entry after_hi)) = Inr failing_client
   \<and> fst (answer_question_using_context failing_client ''again'' ''Be brief.'' (rpc_log after_hi))
       = Inl (Exn (OtherException ''ConnectionError'') ''Connection refused'')
   \<and> fst (async_process (failing_env ''01B'') after_hi (utterance ''again'' (Some ''01A'')))
       = Inr (ConversationResult
               (async_set_error ''en'' UNKNOWN
                  ''Sorry, I had a problem talking to H2OGPT: Connection refused'') ''01A'')
   \<and> gradio_client (unreachable_env ''01A'') (data_host_url (entry agent0))
       = Inl (Exn (OtherException ''ConnectionError'') ''Connection refused'')
   \<and> async_process (unreachable_env ''01A'') agent0 (utterance ''hi'' None)
       = (Inl (Exn (OtherException ''ConnectionError'') ''Connection refused''), agent0)"
proof -
  let ?env = "failing_env ''01B''" and ?inp = "utterance ''again'' (Some ''01A'')"
  let ?err = "Exn (OtherException ''ConnectionError'') ''Connection refused''"
  have c: "gradio_client ?env (data_host_url (entry after_hi)) = Inr failing_client"
    by (simp add: failing_env_def)
  have ctx: "raw_prompt_context ?env after_hi = ''Be brief.''"
    by (rule raw_prompt_context_local) (simp_all add: after_hi_fields failing_env_def)
  have t: "user_text ?inp = ''again''" "language ?inp = ''en''"
    "conversation_id ?inp = Some ''01A''" by (simp_all add: utterance_def)
  obtain log where a: "answer_question_using_context failing_client (user_text ?inp)
      (raw_prompt_context ?env after_hi) (rpc_log after_hi) = (Inl ?err, log)"
    using answer_failing [of "user_text ?inp" "raw_prompt_context ?env after_hi" "rpc_log after_hi"]
    by (cases "answer_question_using_context failing_client (user_text ?inp)
      (raw_prompt_context ?env after_hi) (rpc_log after_hi)") simp
  have u: "gradio_client (unreachable_env ''01A'') (data_host_url (entry agent0)) = Inl ?err"
    by (simp add: unreachable_env_def)
  have h: "in_history after_hi (Some ''01A'') = Some (''01A'', 0)"
    by (simp add: in_history_def after_hi_fields)
  have 1: "fst (async_process ?env after_hi ?inp)
       = Inr (ConversationResult
               (async_set_error ''en'' UNKNOWN
                  ''Sorry, I had a problem talking to H2OGPT: Connection refused'') ''01A'')"
    using remote_errors_become_replies [of ?env after_hi failing_client ?inp ?err] c a
    by (simp add: t h)
  have 2: "async_process (unreachable_env ''01A'') agent0 (utterance ''hi'' None)
       = (Inl ?err, agent0)"
    using remote_errors_become_replies
      [of "unreachable_env ''01A''" agent0 failing_client "utterance ''hi'' None" ?err] u
    by simp
  show ?thesis using c 1 2 u answer_failing by simp
qed

section \<open>The reply payload\<close>


section \<open>The store stays sound\<close>

lemma sound_init: "sound (H2OGPTAgent_init e)"
  by (simp add: sound_def H2OGPTAgent_init_def)

lemma sound_distinct:
  "sound self \<Longrightarrow> history self c = Some a \<Longrightarrow> history self c' = Some a \<Longrightarrow> c = c'"
  by (auto simp: sound_def inj_on_def dom_def)

lemma sound_bound: "sound self \<Longrightarrow> history self c = Some a \<Longrightarrow> a < next_addr self"
  by (auto simp: sound_def)

lemma sound_async_process:
  assumes w: "sound self"
  shows "sound (snd (async_process env self inp))"
proof (cases rule: process_cases [of env self inp])
  case (new_success r log)
  have "inj_on ((history self)(ulid env \<mapsto> next_addr self))
          (dom ((history self)(ulid env \<mapsto> next_addr self)))"
    using w unfolding sound_def inj_on_def dom_def
    by (auto split: if_splits) (metis less_irrefl)+
  moreover have "\<forall>c a. ((history self)(ulid env \<mapsto> next_addr self)) c = Some a
      \<longrightarrow> a < Suc (next_addr self)"
    using w unfolding sound_def by (auto simp: less_Suc_eq)
  ultimately show ?thesis using new_success by (simp add: sound_def)
qed (use w in \<open>auto simp: sound_def less_Suc_eq\<close>)

section \<open>Sessions over a sequence of calls\<close>

lemma stored_Some_iff:
  "stored self cid = Some ms \<longleftrightarrow> (\<exists>a. history self cid = Some a \<and> ms = list_at self a)"
  by (auto simp: stored_def split: option.splits)

lemma stored_step:
  assumes w: "sound self" and f: "mints_fresh self call"
    and nf: "\<not> failed_on cid self call" and st: "stored self cid = Some ms"
  shows "stored (snd (async_process (fst call) self (snd call))) cid
           = Some (ms @ exchange cid self call)"
proof -
  obtain a0 where a0: "history self cid = Some a0" "ms = list_at self a0"
    using st by (auto simp: stored_Some_iff)
  have bound: "a0 < next_addr self" using w a0 by (auto dest: sound_bound)
  show ?thesis
  proof (cases rule: process_cases [of "fst call" self "snd call"])
    case (raise err)
    then show ?thesis using st by (simp add: exchange_def speech_under_def)
  next
    case (known_failure c a err log)
    have "c \<noteq> cid"
      using nf known_failure a0 by (auto simp: failed_on_def is_error_def)
    then have "a \<noteq> a0" using w known_failure a0 by (auto dest: sound_distinct)
    then show ?thesis using known_failure a0
      by (simp add: exchange_def speech_under_def stored_def list_at_def)
  next
    case (known_success c a r log)
    show ?thesis
    proof (cases "c = cid")
      case True
      then show ?thesis using known_success a0
        by (simp add: exchange_def speech_under_def stored_def list_at_def)
    next
      case False
      then have "a \<noteq> a0" using w known_success a0 by (auto dest: sound_distinct)
      then show ?thesis using known_success a0 False
        by (simp add: exchange_def speech_under_def stored_def list_at_def)
    qed
  next
    case (new_failure err log)
    then show ?thesis using a0 bound
      by (simp add: exchange_def speech_under_def stored_def list_at_def)
  next
    case (new_success r log)
    have "history self (ulid (fst call)) = None"
      using f new_success by (simp add: mints_fresh_def)
    then have "ulid (fst call) \<noteq> cid" using a0 by auto
    then show ?thesis using new_success a0 bound
      by (simp add: exchange_def speech_under_def stored_def list_at_def)
  qed
qed

lemma stored_run:
  "sound self \<Longrightarrow> fresh_ids self calls \<Longrightarrow> no_failure_on cid self calls \<Longrightarrow>
   stored self cid = Some ms \<Longrightarrow>
   stored (run self calls) cid = Some (ms @ exchanges cid self calls)"
proof (induction calls arbitrary: self ms)
  case Nil
  then show ?case by simp
next
  case (Cons call calls)
  let ?s = "snd (async_process (fst call) self (snd call))"
  have step: "stored ?s cid = Some (ms @ exchange cid self call)"
    using stored_step [of self call cid ms] Cons.prems by simp
  have "stored (run ?s calls) cid = Some ((ms @ exchange cid self call) @ exchanges cid ?s calls)"
    using Cons.IH [OF sound_async_process [OF Cons.prems(1)] _ _ step] Cons.prems
    by simp
  then show ?case by simp
qed

lemma length_exchanges: "length (exchanges cid self calls) = 2 * successes cid self calls"
  by (induction calls arbitrary: self) (auto simp: exchange_def split: option.splits)

text \<open>
  C4, as stated, fails for a call that fails: presented with an identifier never seen
  before, \<^verbatim>\<open>async_process\<close> mints an id and answers with the error reply, and stores
  no session at all.
\<close>

theorem failed_call_creates_no_session:
  "fst (async_process (failing_env ''01B'') agent0 (utterance ''hi'' (Some ''never seen'')))
     = Inr (ConversationResult
             (async_set_error ''en'' UNKNOWN
                ''Sorry, I had a problem talking to H2OGPT: Connection refused'') ''01B'')
   \<and> dom (history (snd (async_process (failing_env ''01B'') agent0
                           (utterance ''hi'' (Some ''never seen''))))) = {}
   \<and> stored (snd (async_process (failing_env ''01B'') agent0
                     (utterance ''hi'' (Some ''never seen'')))) ''01B'' = None"
proof -
  let ?env = "failing_env ''01B''" and ?inp = "utterance ''hi'' (Some ''never seen'')"
  have c: "gradio_client ?env (data_host_url (entry agent0)) = Inr failing_client"
    by (simp add: failing_env_def)
  have n: "in_history agent0 (conversation_id ?inp) = None"
    by (simp add: in_history_def utterance_def agent0_fields)
  obtain log where a: "answer_question_using_context failing_client (user_text ?inp)
      (raw_prompt_context ?env agent0) (rpc_log agent0)
      = (Inl (Exn (OtherException ''ConnectionError'') ''Connection refused''), log)"
    using answer_failing [of "user_text ?inp" "raw_prompt_context ?env agent0" "rpc_log agent0"]
    by (cases "answer_question_using_context failing_client (user_text ?inp)
      (raw_prompt_context ?env agent0) (rpc_log agent0)") simp
  have l: "language ?inp = ''en''" "ulid ?env = ''01B''"
    by (simp_all add: utterance_def failing_env_def)
  show ?thesis
    using process_new_failure [OF c n a]
    by (simp add: l stored_def agent0_fields)
qed

text \<open>
  C4, amended. For an identifier that is absent or not stored, a successful call creates
  exactly one new session, under the id it mints, whose stored list is the system
  message with the current prompt context, the user message and the reply; the other
  sessions are as they were. After this call and any further calls, none of which fails
  on the session, the stored list is the system message followed by the user message
  and the reply of each successful call on the session, in order of arrival: with
  \<open>N\<close> successful calls its length is \<open>1 + 2 * N\<close>. Minted ids are taken to be new.
\<close>

theorem session_created_and_extended:
  assumes "sound self"
    and "in_history self (conversation_id inp) = None"
    and "history self (ulid env) = None"
    and "gradio_client env (data_host_url (entry self)) = Inr client"
    and "answer_question_using_context client (user_text inp) (raw_prompt_context env self)
           (rpc_log self) = (Inr r, log)"
    and "fresh_ids (snd (async_process env self inp)) calls"
    and "no_failure_on (ulid env) (snd (async_process env self inp)) calls"
  shows "fst (async_process env self inp)
           = Inr (ConversationResult (async_set_speech (language inp) r) (ulid env))
     \<and> dom (history (snd (async_process env self inp))) = insert (ulid env) (dom (history self))
     \<and> (\<forall>c. c \<noteq> ulid env \<longrightarrow> stored (snd (async_process env self inp)) c = stored self c)
     \<and> stored (snd (async_process env self inp)) (ulid env)
         = Some [message ''system'' (raw_prompt_context env self),
                 message ''user'' (user_text inp), r]
     \<and> stored (run (snd (async_process env self inp)) calls) (ulid env)
         = Some ([message ''system'' (raw_prompt_context env self),
                  message ''user'' (user_text inp), r]
                 @ exchanges (ulid env) (snd (async_process env self inp)) calls)
     \<and> map_option length (stored (run (snd (async_process env self inp)) calls) (ulid env))
         = Some (1 + 2 * (1 + successes (ulid env) (snd (async_process env self inp)) calls))"
proof -
  let ?s = "snd (async_process env self inp)"
  let ?ms = "[message ''system'' (raw_prompt_context env self),
              message ''user'' (user_text inp), r]"
  note p = process_new_success [OF assms(4) assms(2) assms(5)]
  have others: "stored ?s c = stored self c" if "c \<noteq> ulid env" for c
  proof (cases "history self c")
    case None
    then show ?thesis using p that by (simp add: stored_def)
  next
    case (Some a)
    then have "a \<noteq> next_addr self" using sound_bound [OF assms(1) Some] by simp
    then show ?thesis using p that Some by (simp add: stored_def list_at_def)
  qed
  have here: "stored ?s (ulid env) = Some ?ms"
    using p by (simp add: stored_def list_at_def)
  have run: "stored (run ?s calls) (ulid env) = Some (?ms @ exchanges (ulid env) ?s calls)"
    using stored_run [OF sound_async_process [OF assms(1)] assms(6) assms(7) here] .
  show ?thesis
    using p others here run by (simp add: length_exchanges)
qed

lemma second_call_succeeds:
  "\<exists>log. async_process (stub_env hi_there ''01C'') after_hi (utterance ''again'' (Some ''01A'')) =
     (Inr (ConversationResult (async_set_speech ''en'' (PStr ''hi there'')) ''01A''),
      after_hi\<lparr>objects := (objects after_hi)(0 \<mapsto>
                  [message ''system'' ''Be brief.'', message ''user'' ''hi'', PStr ''hi there'',
                   message ''user'' ''again'', PStr ''hi there'']),
                rpc_log := log\<rparr>)"
proof -
  let ?env = "stub_env hi_there ''01C''" and ?inp = "utterance ''again'' (Some ''01A'')"
  have c: "gradio_client ?env (data_host_url (entry after_hi)) = Inr (stub_client hi_there)"
    by (simp add: stub_env_def)
  have i: "conversation_id ?inp = Some ''01A''" by (simp add: utterance_def)
  have h: "history after_hi ''01A'' = Some 0" by (simp add: after_hi_fields)
  obtain log where a: "answer_question_using_context (stub_client hi_there) (user_text ?inp)
      (raw_prompt_context ?env after_hi) (rpc_log after_hi) = (Inr (PStr ''hi there''), log)"
    using answer_stub [of hi_there "user_text ?inp" "raw_prompt_context ?env after_hi"
        "rpc_log after_hi"]
    by (cases "answer_question_using_context (stub_client hi_there) (user_text ?inp)
      (raw_prompt_context ?env after_hi) (rpc_log after_hi)") (simp add: literal_eval_hi_there)
  have l: "language ?inp = ''en''" "user_text ?inp = ''again''" by (simp_all add: utterance_def)
  have at: "list_at after_hi 0
      = [message ''system'' ''Be brief.'', message ''user'' ''hi'', PStr ''hi there'']"
    by (simp add: list_at_def after_hi_fields)
  show ?thesis
    using process_known_success [OF c i h a] unfolding l at
    by (intro exI [of _ log]) simp
qed

theorem session_created_and_extended_witness:
  "sound agent0
   \<and> in_history agent0 (conversation_id (utterance ''hi'' None)) = None
   \<and> history agent0 (ulid (stub_env hi_there ''01A'')) = None
   \<and> gradio_client (stub_env hi_there ''01A'') (data_host_url (entry agent0))
       = Inr (stub_client hi_there)
   \<and> fst (answer_question_using_context (stub_client hi_there) ''hi'' ''Be brief.''
             (rpc_log agent0)) = Inr (PStr ''hi there'')
   \<and> fresh_ids after_hi [(stub_env hi_there ''01C'', utterance ''again'' (Some ''01A''))]
   \<and> no_failure_on ''01A'' after_hi [(stub_env hi_there ''01C'', utterance ''again'' (Some ''01A''))]
   \<and> successes ''01A'' after_hi [(stub_env hi_there ''01C'', utterance ''again'' (Some ''01A''))] = 1
   \<and> stored after_hi ''01A''
       = Some [message ''system'' ''Be brief.'', message ''user'' ''hi'', PStr ''hi there'']
   \<and> stored (run after_hi [(stub_env hi_there ''01C'', utterance ''again'' (Some ''01A''))]) ''01A''
       = Some [message ''system'' ''Be brief.'', message ''user'' ''hi'', PStr ''hi there'',
               message ''user'' ''again'', PStr ''hi there'']
   \<and> map_option length
        (stored (run after_hi [(stub_env hi_there ''01C'', utterance ''again'' (Some ''01A''))])
           ''01A'') = Some 5"
proof -
  let ?env = "stub_env hi_there ''01A''" and ?inp = "utterance ''hi'' None"
  let ?call = "(stub_env hi_there ''01C'', utterance ''again'' (Some ''01A''))"
  have s: "sound agent0" unfolding agent0_def by (rule sound_init)
  have n: "in_history agent0 (conversation_id ?inp) = None"
    by (simp add: in_history_def utterance_def)
  have u: "ulid ?env = ''01A''" by (simp add: stub_env_def)
  have f: "history agent0 (ulid ?env) = None" by (simp add: agent0_fields)
  have c: "gradio_client ?env (data_host_url (entry agent0)) = Inr (stub_client hi_there)"
    by (simp add: stub_env_def)
  have ctx: "raw_prompt_context ?env agent0 = ''Be brief.''"
    by (rule raw_prompt_context_local) (simp_all add: agent0_fields stub_env_def)
  obtain log where a: "answer_question_using_context (stub_client hi_there) (user_text ?inp)
      (raw_prompt_context ?env agent0) (rpc_log agent0) = (Inr (PStr ''hi there''), log)"
    using answer_stub [of hi_there "user_text ?inp" "raw_prompt_context ?env agent0" "rpc_log agent0"]
    by (cases "answer_question_using_context (stub_client hi_there) (user_text ?inp)
      (raw_prompt_context ?env agent0) (rpc_log agent0)") (simp add: literal_eval_hi_there)
  have fr: "fresh_ids after_hi [?call]"
    by (simp add: mints_fresh_def in_history_def utterance_def after_hi_fields)
  have nf: "no_failure_on ''01A'' after_hi [?call]"
    using second_call_succeeds by (auto simp: failed_on_def is_error_def)
  have su: "successes ''01A'' after_hi [?call] = 1"
    using second_call_succeeds by (auto simp: speech_under_def)
  have ex: "exchanges ''01A'' after_hi [?call] = [message ''user'' ''again'', PStr ''hi there'']"
    using second_call_succeeds by (auto simp: exchange_def speech_under_def utterance_def)
  have t: "user_text ?inp = ''hi''" by (simp add: utterance_def)
  show ?thesis
    using session_created_and_extended
      [of agent0 ?inp ?env "stub_client hi_there" "PStr ''hi there''" log "[?call]",
       OF s n f c a, folded after_hi_def, unfolded u, OF fr nf]
    using s n f c fr nf su ex
    by (simp add: ctx t answer_stub literal_eval_hi_there)
qed

section \<open>The request of a call\<close>

























section \<open>What a successful call stores\<close>




section \<open>A first call that fails\<close>

text \<open>
  C10. When the first call of a conversation fails at the remote step, the id it minted
  is returned with the error reply, but the history is as before: nothing is stored
  under that id. A later call that presents the id does not find it, so it mints
  another id, returns that one, and starts a new list with the system message and its
  own user message; when it succeeds, that list with the reply is what is stored under
  the new id.
\<close>

theorem failed_first_call_is_forgotten:
  assumes "in_history self (conversation_id inp1) = None"
    and "history self (ulid env1) = None"
    and "gradio_client env1 (data_host_url (entry self)) = Inr client1"
    and "answer_question_using_context client1 (user_text inp1) (raw_prompt_context env1 self)
           (rpc_log self) = (Inl err, log)"
    and "conversation_id inp2 = Some (ulid env1)"
    and "gradio_client env2 (data_host_url (entry self)) = Inr client2"
  shows "fst (async_process env1 self inp1)
           = Inr (ConversationResult
                   (async_set_error (language inp1) UNKNOWN
                      (''Sorry, I had a problem talking to H2OGPT: '' @ str_exn err))
                   (ulid env1))
     \<and> history (snd (async_process env1 self inp1)) = history self
     \<and> stored (snd (async_process env1 self inp1)) (ulid env1) = None
     \<and> in_history (snd (async_process env1 self inp1)) (conversation_id inp2) = None
     \<and> (\<exists>res. fst (async_process env2 (snd (async_process env1 self inp1)) inp2) = Inr res
               \<and> result_conversation_id res = ulid env2)
     \<and> (\<forall>lang r.
           fst (async_process env2 (snd (async_process env1 self inp1)) inp2)
             = Inr (ConversationResult (async_set_speech lang r) (ulid env2)) \<longrightarrow>
           stored (snd (async_process env2 (snd (async_process env1 self inp1)) inp2)) (ulid env2)
             = Some [message ''system''
                       (raw_prompt_context env2 (snd (async_process env1 self inp1))),
                     message ''user'' (user_text inp2), r])"
proof -
  let ?s1 = "snd (async_process env1 self inp1)"
  note p1 = process_new_failure [OF assms(3) assms(1) assms(4)]
  have h: "history ?s1 = history self" using p1 by simp
  have e: "entry ?s1 = entry self" using p1 by simp
  have n2: "in_history ?s1 (conversation_id inp2) = None"
    by (simp add: in_history_def assms(5) h assms(2))
  have c2: "gradio_client env2 (data_host_url (entry ?s1)) = Inr client2"
    using assms(6) e by simp
  have id2: "\<exists>res. fst (async_process env2 ?s1 inp2) = Inr res
               \<and> result_conversation_id res = ulid env2"
  proof (cases rule: process_cases [of env2 ?s1 inp2])
    case (raise err)
    then show ?thesis using c2 by simp
  next
    case (known_failure c a err log)
    then show ?thesis using n2 by (simp add: in_history_def)
  next
    case (known_success c a r log)
    then show ?thesis using n2 by (simp add: in_history_def)
  next
    case (new_failure err log)
    then show ?thesis by simp
  next
    case (new_success r log)
    then show ?thesis by simp
  qed
  have st2: "stored (snd (async_process env2 ?s1 inp2)) (ulid env2)
             = Some [message ''system'' (raw_prompt_context env2 ?s1),
                     message ''user'' (user_text inp2), r]"
    if "fst (async_process env2 ?s1 inp2)
             = Inr (ConversationResult (async_set_speech lang r) (ulid env2))" for lang r
  proof (cases rule: process_cases [of env2 ?s1 inp2])
    case (raise err)
    then show ?thesis using c2 by simp
  next
    case (known_failure c a err log)
    then show ?thesis using n2 by (simp add: in_history_def)
  next
    case (known_success c a r log)
    then show ?thesis using n2 by (simp add: in_history_def)
  next
    case (new_failure err log)
    then show ?thesis using that by simp
  next
    case (new_success r' log)
    then have "r' = r" using that by simp
    then show ?thesis using new_success by (simp add: stored_def list_at_def)
  qed
  show ?thesis
    using p1 h n2 id2 st2 by (simp add: stored_def assms(2))
qed

theorem failed_first_call_is_forgotten_witness:
  "in_history agent0 (conversation_id (utterance ''hi'' None)) = None
   \<and> history agent0 (ulid (failing_env ''01B'')) = None
   \<and> gradio_client (failing_env ''01B'') (data_host_url (entry agent0)) = Inr failing_client
   \<and> fst (answer_question_using_context failing_client ''hi'' ''Be brief.'' (rpc_log agent0))
       = Inl (Exn (OtherException ''ConnectionError'') ''Connection refused'')
   \<and> conversation_id (utterance ''again'' (Some ''01B'')) = Some (ulid (failing_env ''01B''))
   \<and> gradio_client (stub_env hi_there ''01C'') (data_host_url (entry agent0))
       = Inr (stub_client hi_there)
   \<and> fst (async_process (failing_env ''01B'') agent0 (utterance ''hi'' None))
       = Inr (ConversationResult
               (async_set_error ''en'' UNKNOWN
                  ''Sorry, I had a problem talking to H2OGPT: Connection refused'') ''01B'')
   \<and> stored (snd (async_process (failing_env ''01B'') agent0 (utterance ''hi'' None))) ''01B''
       = None
   \<and> fst (async_process (stub_env hi_there ''01C'')
             (snd (async_process (failing_env ''01B'') agent0 (utterance ''hi'' None)))
             (utterance ''again'' (Some ''01B'')))
       = Inr (ConversationResult (async_set_speech ''en'' (PStr ''hi there'')) ''01C'')
   \<and> stored (snd (async_process (stub_env hi_there ''01C'')
                    (snd (async_process (failing_env ''01B'') agent0 (utterance ''hi'' None)))
                    (utterance ''again'' (Some ''01B'')))) ''01C''
       = Some [message ''system'' ''Be brief.'', message ''user'' ''again'', PStr ''hi there'']"
proof -
  let ?env1 = "failing_env ''01B''" and ?inp1 = "utterance ''hi'' None"
  let ?env2 = "stub_env hi_there ''01C''" and ?inp2 = "utterance ''again'' (Some ''01B'')"
  let ?s1 = "snd (async_process ?env1 agent0 ?inp1)"
  let ?err = "Exn (OtherException ''ConnectionError'') ''Connection refused''"
  have n: "in_history agent0 (conversation_id ?inp1) = None"
    by (simp add: in_history_def utterance_def)
  have u: "ulid ?env1 = ''01B''" "ulid ?env2 = ''01C''"
    by (simp_all add: failing_env_def stub_env_def)
  have f: "history agent0 (ulid ?env1) = None" by (simp add: agent0_fields)
  have c1: "gradio_client ?env1 (data_host_url (entry agent0)) = Inr failing_client"
    by (simp add: failing_env_def)
  obtain log where a: "answer_question_using_context failing_client (user_text ?inp1)
      (raw_prompt_context ?env1 agent0) (rpc_log agent0) = (Inl ?err, log)"
    using answer_failing [of "user_text ?inp1" "raw_prompt_context ?env1 agent0" "rpc_log agent0"]
    by (cases "answer_question_using_context failing_client (user_text ?inp1)
      (raw_prompt_context ?env1 agent0) (rpc_log agent0)") simp
  have i2: "conversation_id ?inp2 = Some (ulid ?env1)" by (simp add: utterance_def u)
  have c2: "gradio_client ?env2 (data_host_url (entry agent0)) = Inr (stub_client hi_there)"
    by (simp add: stub_env_def)
  note w = failed_first_call_is_forgotten [OF n f c1 a i2 c2]
  have s1: "entry ?s1 = local_entry" "in_history ?s1 (conversation_id ?inp2) = None"
    using process_new_failure [OF c1 n a] w by (simp_all add: agent0_fields)
  have ctx: "raw_prompt_context ?env2 ?s1 = ''Be brief.''"
    by (rule raw_prompt_context_local) (simp_all add: s1 stub_env_def)
  have c2': "gradio_client ?env2 (data_host_url (entry ?s1)) = Inr (stub_client hi_there)"
    by (simp add: stub_env_def)
  obtain log2 where a2: "answer_question_using_context (stub_client hi_there) (user_text ?inp2)
      (raw_prompt_context ?env2 ?s1) (rpc_log ?s1) = (Inr (PStr ''hi there''), log2)"
    using answer_stub [of hi_there "user_text ?inp2" "raw_prompt_context ?env2 ?s1" "rpc_log ?s1"]
    by (cases "answer_question_using_context (stub_client hi_there) (user_text ?inp2)
      (raw_prompt_context ?env2 ?s1) (rpc_log ?s1)") (simp add: literal_eval_hi_there)
  have r2: "fst (async_process ?env2 ?s1 ?inp2)
       = Inr (ConversationResult (async_set_speech ''en'' (PStr ''hi there'')) ''01C'')"
    using process_new_success [OF c2' s1(2) a2] by (simp add: u utterance_def)
  have t: "user_text ?inp2 = ''again''" "language ?inp1 = ''en''" by (simp_all add: utterance_def)
  show ?thesis
    using w n f c1 i2 c2 r2 unfolding u ctx t by (simp add: answer_failing)
qed

end
